theory Spec2Isabelle
  imports Main "HOL-Library.Word"
begin

section \<open>Data model\<close>

text \<open>
  The auth-api keeps users and sessions in a database and hands out two signed tokens.
  A JavaScript property that may be \<^verbatim>\<open>undefined\<close> or \<^verbatim>\<open>null\<close> is an \<open>option\<close> here, with
  \<open>None\<close> for the absent value; tokens, hashes and identifiers are strings.
\<close>

type_synonym token = string

record user =
  u_id :: string
  u_email :: string
  u_password_hash :: "string option"

text \<open>One row of the session table. \<open>s_revoked_at\<close> is the nullable revocation timestamp.\<close>

record session =
  s_id :: nat
  s_user_id :: "string option"
  s_jwt_id :: "string option"
  s_ip :: "string option"
  s_user_agent :: "string option"
  s_refresh_hash :: "string option"
  s_created_at :: nat
  s_revoked_at :: "nat option"

text \<open>The object literal that the callers pass to \<^verbatim>\<open>createSession\<close>.\<close>

record new_session =
  ns_user_id :: "string option"
  ns_jwt_id :: "string option"
  ns_ip :: "string option"
  ns_user_agent :: "string option"
  ns_refresh_hash :: "string option"

record store =
  users :: "user list"
  sessions :: "session list"

text \<open>The payloads that are signed: \<^verbatim>\<open>{ sub, email }\<close> and \<^verbatim>\<open>{ sub, jti }\<close>.\<close>

record access_payload =
  a_sub :: "string option"
  a_email :: "string option"

record refresh_payload =
  r_sub :: "string option"
  r_jti :: "string option"

text \<open>\<^verbatim>\<open>meta\<close> of \<^verbatim>\<open>loginWithPassword\<close> and the two request fields \<^verbatim>\<open>googleCallback\<close> reads.\<close>

record meta =
  m_ip :: "string option"
  m_user_agent :: "string option"

record request =
  req_ip :: "string option"
  req_user_agent :: "string option"

text \<open>The value \<^verbatim>\<open>{ user, access, refresh }\<close> that login and refresh return.\<close>

record token_pair =
  tp_user :: user
  tp_access :: token
  tp_refresh :: token

text \<open>
  Errors as values. \<open>HttpError msg status\<close> is \<^verbatim>\<open>new Error(msg)\<close> with \<^verbatim>\<open>err.status = status\<close>;
  \<open>TypeError\<close> is the exception of reading a property of \<^verbatim>\<open>null\<close>; \<open>JwtError\<close> is what the
  token verifier throws; \<open>Conflict\<close> is the session table's uniqueness violation;
  \<open>ProviderFailure\<close> is an error object handed over by the identity provider library.
\<close>

datatype error =
  HttpError string nat
  | TypeError
  | JwtError
  | Conflict
  | ProviderFailure string

definition InvalidCredentials :: error where
  "InvalidCredentials = HttpError ''Invalid credentials'' 401"

definition SessionRevoked :: error where
  "SessionRevoked = HttpError ''Session revoked'' 401"

definition InvalidToken :: error where
  "InvalidToken = HttpError ''Invalid refresh token'' 401"

section \<open>Collaborators that are not part of the sources\<close>

text \<open>
  Modelled from the spec: \<^verbatim>\<open>utils/jwt\<close>, \<^verbatim>\<open>utils/crypto\<close>, \<^verbatim>\<open>config/env\<close> and the \<^verbatim>\<open>bcrypt\<close>
  package are missing from the sources. They are parameters of every operation, collected
  in one record. Signing stamps the token with the time of issue and verifying compares
  the expiry with the current time, so both take the clock reading; a verifier that
  throws returns \<open>None\<close>. Nothing is assumed about these functions: a theorem that needs a
  property of them states it as a hypothesis.
\<close>

record env =
  signAccessToken :: "nat \<Rightarrow> access_payload \<Rightarrow> token"
  signRefreshToken :: "nat \<Rightarrow> refresh_payload \<Rightarrow> token"
  verifyAccessToken :: "nat \<Rightarrow> token \<Rightarrow> access_payload option"
  verifyRefreshToken :: "nat \<Rightarrow> token \<Rightarrow> refresh_payload option"
  hashToken :: "token \<Rightarrow> string"
  bcrypt_compare :: "string \<Rightarrow> string \<Rightarrow> bool"
  NODE_ENV :: string
  APP_URL :: string

text \<open>
  Modelled from the spec: \<^verbatim>\<open>models/userModel\<close> is missing from the sources. A lookup returns
  the first user with the given key, or nothing.
\<close>

definition findUserByEmail :: "store \<Rightarrow> string \<Rightarrow> user option" where
  "findUserByEmail s email = find (\<lambda>u. u_email u = email) (users s)"

definition findUserById :: "store \<Rightarrow> string option \<Rightarrow> user option" where
  "findUserById s sub =
     (case sub of None \<Rightarrow> None | Some i \<Rightarrow> find (\<lambda>u. u_id u = i) (users s))"

text \<open>
  Modelled from the spec: \<^verbatim>\<open>models/sessionModel\<close> is missing from the sources. Section 4.3
  of the design gives its three operations: \<open>create\<close> inserts a new active session and
  fails with \<open>Conflict\<close> if the token identifier already exists, \<open>findByJti\<close> returns the
  session or nothing, and \<open>revoke\<close> sets the revocation timestamp and is a no-op on a
  session that is already revoked. The table is a list in insertion order; the row id is
  assigned by the table.
\<close>

definition findSessionByJti :: "store \<Rightarrow> string option \<Rightarrow> session option" where
  "findSessionByJti s jti = find (\<lambda>r. s_jwt_id r = jti) (sessions s)"

definition createSession :: "nat \<Rightarrow> new_session \<Rightarrow> store \<Rightarrow> (error + session) \<times> store" where
  "createSession now d s =
     (if findSessionByJti s (ns_jwt_id d) \<noteq> None then (Inl Conflict, s)
      else
        let row = \<lparr> s_id = length (sessions s),
                    s_user_id = ns_user_id d,
                    s_jwt_id = ns_jwt_id d,
                    s_ip = ns_ip d,
                    s_user_agent = ns_user_agent d,
                    s_refresh_hash = ns_refresh_hash d,
                    s_created_at = now,
                    s_revoked_at = None \<rparr>
        in (Inr row, s\<lparr>sessions := sessions s @ [row]\<rparr>))"

definition revokeRow :: "nat \<Rightarrow> nat \<Rightarrow> session \<Rightarrow> session" where
  "revokeRow now sid r =
     (if s_id r = sid \<and> s_revoked_at r = None then r\<lparr>s_revoked_at := Some now\<rparr> else r)"

definition revokeSession :: "nat \<Rightarrow> nat \<Rightarrow> store \<Rightarrow> store" where
  "revokeSession now sid s = s\<lparr>sessions := map (revokeRow now sid) (sessions s)\<rparr>"

section \<open>services/authService.js\<close>

record cookie_options =
  httpOnly :: bool
  sameSite :: string
  secure :: bool
  maxAge :: nat
  path :: string

definition createCookieOptions :: "env \<Rightarrow> bool \<Rightarrow> cookie_options" where
  "createCookieOptions E isRefresh =
     (let maxAge = (if isRefresh then 1000 * 60 * 60 * 24 * 30 else 1000 * 60 * 15)
      in \<lparr> httpOnly = True,
           sameSite = ''lax'',
           secure = (NODE_ENV E = ''production''),
           maxAge = maxAge,
           path = ''/'' \<rparr>)"

text \<open>
  \<^verbatim>\<open>cryptoRandomId\<close> is \<^verbatim>\<open>randomBytes(16).toString('hex')\<close>. The random bytes are an input
  of the model; the function is their lower-case hexadecimal rendering.
\<close>

definition hexDigit :: "nat \<Rightarrow> char" where
  "hexDigit n = ''0123456789abcdef'' ! (n mod 16)"

definition hexByte :: "8 word \<Rightarrow> string" where
  "hexByte b = [hexDigit (unat b div 16), hexDigit (unat b mod 16)]"

definition cryptoRandomId :: "8 word list \<Rightarrow> string" where
  "cryptoRandomId bytes = concat (map hexByte bytes)"

text \<open>
  \<^verbatim>\<open>loginWithPassword(email, password, meta)\<close>. The test \<^verbatim>\<open>!user.password_hash\<close> also
  rejects the empty string. Every operation returns its result together with the store it
  leaves behind, also when it throws.
\<close>

definition loginWithPassword ::
  "env \<Rightarrow> nat \<Rightarrow> 8 word list \<Rightarrow> string \<Rightarrow> string \<Rightarrow> meta \<Rightarrow> store \<Rightarrow> (error + token_pair) \<times> store"
where
  "loginWithPassword E now rnd email password m s =
     (case findUserByEmail s email of
        None \<Rightarrow> (Inl InvalidCredentials, s)
      | Some user \<Rightarrow>
          (case u_password_hash user of
             None \<Rightarrow> (Inl InvalidCredentials, s)
           | Some password_hash \<Rightarrow>
               if password_hash = [] then (Inl InvalidCredentials, s)
               else if \<not> bcrypt_compare E password password_hash then (Inl InvalidCredentials, s)
               else
                 let jwt_id = cryptoRandomId rnd;
                     access = signAccessToken E now
                                \<lparr>a_sub = Some (u_id user), a_email = Some (u_email user)\<rparr>;
                     refresh = signRefreshToken E now
                                \<lparr>r_sub = Some (u_id user), r_jti = Some jwt_id\<rparr>
                 in (case createSession now
                            \<lparr> ns_user_id = Some (u_id user),
                              ns_jwt_id = Some jwt_id,
                              ns_ip = m_ip m,
                              ns_user_agent = m_user_agent m,
                              ns_refresh_hash = Some (hashToken E refresh) \<rparr> s of
                       (Inl e, s') \<Rightarrow> (Inl e, s')
                     | (Inr _, s') \<Rightarrow>
                         (Inr \<lparr>tp_user = user, tp_access = access, tp_refresh = refresh\<rparr>, s'))))"

text \<open>
  \<^verbatim>\<open>refreshSession(refreshToken)\<close>. A session is truthy when the lookup found one, and
  \<^verbatim>\<open>session.revoked_at\<close> is truthy when the timestamp is set. \<^verbatim>\<open>user.id\<close> on a missing user
  throws a \<open>TypeError\<close> before the store is written.
\<close>

definition refreshSession ::
  "env \<Rightarrow> nat \<Rightarrow> 8 word list \<Rightarrow> token \<Rightarrow> store \<Rightarrow> (error + token_pair) \<times> store"
where
  "refreshSession E now rnd refreshToken s =
     (case verifyRefreshToken E now refreshToken of
        None \<Rightarrow> (Inl JwtError, s)
      | Some payload \<Rightarrow>
          (case findSessionByJti s (r_jti payload) of
             None \<Rightarrow> (Inl SessionRevoked, s)
           | Some session \<Rightarrow>
               if s_revoked_at session \<noteq> None then (Inl SessionRevoked, s)
               else if s_refresh_hash session \<noteq> Some (hashToken E refreshToken)
                 then (Inl InvalidToken, s)
               else
                 (case findUserById s (r_sub payload) of
                    None \<Rightarrow> (Inl TypeError, s)
                  | Some user \<Rightarrow>
                      let newJwtId = cryptoRandomId rnd;
                          access = signAccessToken E now
                                     \<lparr>a_sub = Some (u_id user), a_email = Some (u_email user)\<rparr>;
                          refresh = signRefreshToken E now
                                     \<lparr>r_sub = Some (u_id user), r_jti = Some newJwtId\<rparr>;
                          s1 = revokeSession now (s_id session) s
                      in (case createSession now
                                 \<lparr> ns_user_id = Some (u_id user),
                                   ns_jwt_id = Some newJwtId,
                                   ns_ip = s_ip session,
                                   ns_user_agent = s_user_agent session,
                                   ns_refresh_hash = Some (hashToken E refresh) \<rparr> s1 of
                            (Inl e, s2) \<Rightarrow> (Inl e, s2)
                          | (Inr _, s2) \<Rightarrow>
                              (Inr \<lparr>tp_user = user, tp_access = access, tp_refresh = refresh\<rparr>,
                               s2)))))"

section \<open>middlewares/auth.js\<close>

text \<open>
  The middleware answers \<^verbatim>\<open>401 { error: 'Unauthorized' }\<close> or attaches the user and calls
  \<^verbatim>\<open>next()\<close>. The cookie is \<^verbatim>\<open>req.cookies.access_token || ''\<close>: a missing cookie and the
  empty string are the same. An exception of the verifier is caught and answered by 401.
\<close>

datatype auth_outcome = Unauthorized | Authenticated user

definition auth :: "env \<Rightarrow> nat \<Rightarrow> store \<Rightarrow> token option \<Rightarrow> auth_outcome" where
  "auth E now s cookie =
     (let token = (case cookie of None \<Rightarrow> [] | Some t \<Rightarrow> t)
      in if token = [] then Unauthorized
         else (case verifyAccessToken E now token of
                 None \<Rightarrow> Unauthorized
               | Some payload \<Rightarrow>
                   (case findUserById s (a_sub payload) of
                      None \<Rightarrow> Unauthorized
                    | Some user \<Rightarrow> Authenticated user)))"

section \<open>The identity-provider callback\<close>

text \<open>
  \<^verbatim>\<open>googleCallback\<close> gives the provider library a callback \<^verbatim>\<open>(err, user)\<close>. The library calls
  it with an error, or with no error and the user, or with no error and \<^verbatim>\<open>false\<close> when the
  provider denied the login; \<open>None\<close> is that \<^verbatim>\<open>false\<close>, whose properties read as
  \<^verbatim>\<open>undefined\<close>. The callback ends by \<^verbatim>\<open>next(err)\<close>, by a redirect with the cookies it set, or,
  when \<^verbatim>\<open>createSession\<close> throws inside the \<^verbatim>\<open>async\<close> callback, by a rejected promise.
\<close>

datatype callback_outcome =
  NextErr error
  | Redirected string "(string \<times> token \<times> cookie_options) list"
  | Rejected error

definition googleCallback ::
  "env \<Rightarrow> nat \<Rightarrow> 8 word list \<Rightarrow> error option \<Rightarrow> user option \<Rightarrow> request \<Rightarrow> store
     \<Rightarrow> callback_outcome \<times> store"
where
  "googleCallback E now rnd err user req s =
     (case err of
        Some e \<Rightarrow> (NextErr e, s)
      | None \<Rightarrow>
          let jwt_id = cryptoRandomId rnd;
              access = signAccessToken E now
                         \<lparr>a_sub = map_option u_id user, a_email = map_option u_email user\<rparr>;
              refresh = signRefreshToken E now
                         \<lparr>r_sub = map_option u_id user, r_jti = Some jwt_id\<rparr>
          in (case createSession now
                     \<lparr> ns_user_id = map_option u_id user,
                       ns_jwt_id = Some jwt_id,
                       ns_ip = req_ip req,
                       ns_user_agent =
                         Some (case req_user_agent req of
                                 None \<Rightarrow> ''unknown''
                               | Some ua \<Rightarrow> if ua = [] then ''unknown'' else ua),
                       ns_refresh_hash = Some (hashToken E refresh) \<rparr> s of
                (Inl e, s') \<Rightarrow> (Rejected e, s')
              | (Inr _, s') \<Rightarrow>
                  (Redirected (APP_URL E @ ''/notebooks'')
                     [(''access_token'', access, createCookieOptions E False),
                      (''refresh_token'', refresh, createCookieOptions E True)],
                   s')))"

section \<open>Sequences of requests\<close>

text \<open>
  Modelled from the spec: the logout and the registration handlers are missing from the
  sources; logout revokes a session (section 4.4) and registration adds a user
  (section 6). \<open>request_op\<close> lists the requests that change the store, each with the clock
  reading and the random bytes it draws.
\<close>

datatype request_op =
  OpLogin nat "8 word list" string string meta
  | OpRefresh nat "8 word list" token
  | OpGoogle nat "8 word list" "error option" "user option" request
  | OpLogout nat nat
  | OpRegister user

fun exec :: "env \<Rightarrow> request_op \<Rightarrow> store \<Rightarrow> store" where
  "exec E (OpLogin now rnd email password m) s = snd (loginWithPassword E now rnd email password m s)"
| "exec E (OpRefresh now rnd tok) s = snd (refreshSession E now rnd tok s)"
| "exec E (OpGoogle now rnd err user req) s = snd (googleCallback E now rnd err user req s)"
| "exec E (OpLogout now sid) s = revokeSession now sid s"
| "exec E (OpRegister u) s = s\<lparr>users := users s @ [u]\<rparr>"

fun run :: "env \<Rightarrow> request_op list \<Rightarrow> store \<Rightarrow> store" where
  "run E [] s = s"
| "run E (x # xs) s = run E xs (exec E x s)"

section \<open>refreshSession, one store access at a time\<close>

text \<open>
  \<^verbatim>\<open>refreshSession\<close> is an \<^verbatim>\<open>async\<close> function with four \<^verbatim>\<open>await\<close>s, one per store access:
  \<^verbatim>\<open>findSessionByJti\<close>, \<^verbatim>\<open>findUserById\<close>, \<^verbatim>\<open>revokeSession\<close>, \<^verbatim>\<open>createSession\<close>. Between two
  of them the code runs without interruption; at each of them another request may run.
  A task records how far a call has got and the values it holds; a step runs the code up
  to and including the next store access.
\<close>

datatype refresh_task =
  Start token
  | HaveSession token refresh_payload "session option"
  | HaveUser session "user option"
  | HaveRevoked session user token token string
  | Finished "error + token_pair"

fun refresh_step :: "env \<Rightarrow> nat \<Rightarrow> 8 word list \<Rightarrow> refresh_task \<Rightarrow> store \<Rightarrow> refresh_task \<times> store" where
  "refresh_step E now rnd (Start refreshToken) s =
     (case verifyRefreshToken E now refreshToken of
        None \<Rightarrow> (Finished (Inl JwtError), s)
      | Some payload \<Rightarrow>
          (HaveSession refreshToken payload (findSessionByJti s (r_jti payload)), s))"
| "refresh_step E now rnd (HaveSession refreshToken payload found) s =
     (case found of
        None \<Rightarrow> (Finished (Inl SessionRevoked), s)
      | Some session \<Rightarrow>
          if s_revoked_at session \<noteq> None then (Finished (Inl SessionRevoked), s)
          else if s_refresh_hash session \<noteq> Some (hashToken E refreshToken)
            then (Finished (Inl InvalidToken), s)
          else (HaveUser session (findUserById s (r_sub payload)), s))"
| "refresh_step E now rnd (HaveUser session found) s =
     (case found of
        None \<Rightarrow> (Finished (Inl TypeError), s)
      | Some user \<Rightarrow>
          let newJwtId = cryptoRandomId rnd;
              access = signAccessToken E now
                         \<lparr>a_sub = Some (u_id user), a_email = Some (u_email user)\<rparr>;
              refresh = signRefreshToken E now
                         \<lparr>r_sub = Some (u_id user), r_jti = Some newJwtId\<rparr>
          in (HaveRevoked session user access refresh newJwtId,
              revokeSession now (s_id session) s))"
| "refresh_step E now rnd (HaveRevoked session user access refresh newJwtId) s =
     (case createSession now
             \<lparr> ns_user_id = Some (u_id user),
               ns_jwt_id = Some newJwtId,
               ns_ip = s_ip session,
               ns_user_agent = s_user_agent session,
               ns_refresh_hash = Some (hashToken E refresh) \<rparr> s of
        (Inl e, s') \<Rightarrow> (Finished (Inl e), s')
      | (Inr _, s') \<Rightarrow>
          (Finished (Inr \<lparr>tp_user = user, tp_access = access, tp_refresh = refresh\<rparr>), s'))"
| "refresh_step E now rnd (Finished r) s = (Finished r, s)"

text \<open>
  Two calls in flight. The schedule says which of them takes the next step: \<open>False\<close> the
  first, \<open>True\<close> the second. Each call has its own random bytes.
\<close>

fun interleave ::
  "env \<Rightarrow> nat \<Rightarrow> 8 word list \<Rightarrow> 8 word list \<Rightarrow> bool list
     \<Rightarrow> refresh_task \<times> refresh_task \<times> store \<Rightarrow> refresh_task \<times> refresh_task \<times> store"
where
  "interleave E now rndA rndB [] c = c"
| "interleave E now rndA rndB (second # sched) (a, b, s) =
     (if second
      then (case refresh_step E now rndB b s of
              (b', s') \<Rightarrow> interleave E now rndA rndB sched (a, b', s'))
      else (case refresh_step E now rndA a s of
              (a', s') \<Rightarrow> interleave E now rndA rndB sched (a', b, s')))"

text \<open>
  A token identifier is consumed once the session it names is found revoked: this is the
  test that makes \<^verbatim>\<open>refreshSession\<close> answer \<open>SessionRevoked\<close>.
\<close>

definition consumed :: "store \<Rightarrow> string option \<Rightarrow> bool" where
  "consumed s jti =
     (case findSessionByJti s jti of None \<Rightarrow> False | Some r \<Rightarrow> s_revoked_at r \<noteq> None)"

definition active_sessions :: "store \<Rightarrow> session list" where
  "active_sessions s = filter (\<lambda>r. s_revoked_at r = None) (sessions s)"

text \<open>
  A session row is complete when it has its token identifier and its refresh hash. The rows
  an operation has written are those after the rows that were there before; an operation
  writes completely when it leaves the two fields of the earlier rows alone and every row
  it has written is complete.
\<close>

definition complete :: "session \<Rightarrow> bool" where
  "complete r \<longleftrightarrow> s_jwt_id r \<noteq> None \<and> s_refresh_hash r \<noteq> None"

definition written :: "store \<Rightarrow> store \<Rightarrow> session list" where
  "written s s' = drop (length (sessions s)) (sessions s')"

definition writes_complete :: "store \<Rightarrow> store \<Rightarrow> bool" where
  "writes_complete s s' \<longleftrightarrow>
     map s_jwt_id (take (length (sessions s)) (sessions s')) = map s_jwt_id (sessions s)
     \<and> map s_refresh_hash (take (length (sessions s)) (sessions s'))
         = map s_refresh_hash (sessions s)
     \<and> list_all complete (written s s')"

section \<open>A concrete instance\<close>

text \<open>
  An instance of the parameters on which the operations can be run. A token is a tag, its
  expiry in unary, the length of the first field in unary, and the two fields; the access
  token lives 15 ticks of the clock and the refresh token 30.
\<close>

definition enc_opt :: "string option \<Rightarrow> string" where
  "enc_opt x = (case x of None \<Rightarrow> ''-'' | Some v \<Rightarrow> CHR ''+'' # v)"

definition dec_opt :: "string \<Rightarrow> string option" where
  "dec_opt t = (case t of [] \<Rightarrow> None | c # v \<Rightarrow> if c = CHR ''+'' then Some v else None)"

definition pack :: "nat \<Rightarrow> string \<Rightarrow> string \<Rightarrow> string" where
  "pack e a b =
     replicate e CHR ''i'' @ CHR ''.'' # replicate (length a) CHR ''i'' @ CHR ''.'' # a @ b"

definition unpack :: "string \<Rightarrow> (nat \<times> string \<times> string) option" where
  "unpack t =
     (let e = length (takeWhile (\<lambda>c. c = CHR ''i'') t) in
      case drop e t of
        [] \<Rightarrow> None
      | _ # t1 \<Rightarrow>
          let n = length (takeWhile (\<lambda>c. c = CHR ''i'') t1) in
          (case drop n t1 of
             [] \<Rightarrow> None
           | _ # t2 \<Rightarrow> if length t2 < n then None else Some (e, take n t2, drop n t2)))"

definition sample_env :: env where
  "sample_env =
     \<lparr> signAccessToken =
         (\<lambda>now p. CHR ''A'' # pack (now + 15) (enc_opt (a_sub p)) (enc_opt (a_email p))),
       signRefreshToken =
         (\<lambda>now p. CHR ''R'' # pack (now + 30) (enc_opt (r_sub p)) (enc_opt (r_jti p))),
       verifyAccessToken =
         (\<lambda>now t. case t of
              [] \<Rightarrow> None
            | c # r \<Rightarrow>
                if c \<noteq> CHR ''A'' then None
                else (case unpack r of
                        None \<Rightarrow> None
                      | Some (e, a, b) \<Rightarrow>
                          if now < e then Some \<lparr>a_sub = dec_opt a, a_email = dec_opt b\<rparr>
                          else None)),
       verifyRefreshToken =
         (\<lambda>now t. case t of
              [] \<Rightarrow> None
            | c # r \<Rightarrow>
                if c \<noteq> CHR ''R'' then None
                else (case unpack r of
                        None \<Rightarrow> None
                      | Some (e, a, b) \<Rightarrow>
                          if now < e then Some \<lparr>r_sub = dec_opt a, r_jti = dec_opt b\<rparr>
                          else None)),
       hashToken = (\<lambda>t. ''sha256:'' @ t),
       bcrypt_compare = (\<lambda>password h. h = ''bcrypt:'' @ password),
       NODE_ENV = ''test'',
       APP_URL = ''http://localhost:3000'' \<rparr>"

definition bytes1 :: "8 word list" where
  "bytes1 = [1, 2, 3, 4, 5, 6, 7, 8, 9, 10, 11, 12, 13, 14, 15, 16]"

definition bytes2 :: "8 word list" where
  "bytes2 = [255, 254, 253, 252, 251, 250, 249, 248, 247, 246, 245, 244, 243, 242, 241, 240]"

definition bytes3 :: "8 word list" where
  "bytes3 = [16, 32, 48, 64, 80, 96, 112, 128, 144, 160, 176, 192, 208, 224, 240, 0]"

definition alice :: user where
  "alice = \<lparr>u_id = ''user:1'', u_email = ''a@x.com'', u_password_hash = Some ''bcrypt:correct''\<rparr>"

definition meta0 :: meta where
  "meta0 = \<lparr>m_ip = Some ''10.0.0.1'', m_user_agent = Some ''curl''\<rparr>"

definition store0 :: store where
  "store0 = \<lparr>users = [alice], sessions = []\<rparr>"

text \<open>The refresh token and the store that Alice's login at time 0 leaves behind.\<close>

definition token1 :: token where
  "token1 = signRefreshToken sample_env 0
              \<lparr>r_sub = Some ''user:1'', r_jti = Some (cryptoRandomId bytes1)\<rparr>"

definition session1 :: session where
  "session1 =
     \<lparr> s_id = 0,
       s_user_id = Some ''user:1'',
       s_jwt_id = Some (cryptoRandomId bytes1),
       s_ip = Some ''10.0.0.1'',
       s_user_agent = Some ''curl'',
       s_refresh_hash = Some (hashToken sample_env token1),
       s_created_at = 0,
       s_revoked_at = None \<rparr>"

definition store1 :: store where
  "store1 = \<lparr>users = [alice], sessions = [session1]\<rparr>"

text \<open>The same session in a store that has lost the user.\<close>

definition store_no_user :: store where
  "store_no_user = \<lparr>users = [], sessions = [session1]\<rparr>"

text \<open>What the refresh of \<open>token1\<close> at time 5 returns and leaves behind.\<close>

definition token2 :: token where
  "token2 = signRefreshToken sample_env 5
              \<lparr>r_sub = Some ''user:1'', r_jti = Some (cryptoRandomId bytes2)\<rparr>"

definition access2 :: token where
  "access2 = signAccessToken sample_env 5 \<lparr>a_sub = Some ''user:1'', a_email = Some ''a@x.com''\<rparr>"

definition session2 :: session where
  "session2 =
     \<lparr> s_id = 1,
       s_user_id = Some ''user:1'',
       s_jwt_id = Some (cryptoRandomId bytes2),
       s_ip = Some ''10.0.0.1'',
       s_user_agent = Some ''curl'',
       s_refresh_hash = Some (hashToken sample_env token2),
       s_created_at = 5,
       s_revoked_at = None \<rparr>"

definition store2 :: store where
  "store2 = \<lparr>users = [alice], sessions = [session1\<lparr>s_revoked_at := Some 5\<rparr>, session2]\<rparr>"

text \<open>
  The store after Alice has logged in a second time, at time 5 with the bytes \<open>bytes2\<close> and
  the same request data: her first session and the new one.
\<close>

definition store_two_logins :: store where
  "store_two_logins = \<lparr>users = [alice], sessions = [session1, session2]\<rparr>"

text \<open>
  What a second refresh of \<open>token1\<close> writes when it runs at the same time as the first: the
  store with both new sessions.
\<close>

definition token3 :: token where
  "token3 = signRefreshToken sample_env 5
              \<lparr>r_sub = Some ''user:1'', r_jti = Some (cryptoRandomId bytes3)\<rparr>"

definition session3 :: session where
  "session3 =
     \<lparr> s_id = 2,
       s_user_id = Some ''user:1'',
       s_jwt_id = Some (cryptoRandomId bytes3),
       s_ip = Some ''10.0.0.1'',
       s_user_agent = Some ''curl'',
       s_refresh_hash = Some (hashToken sample_env token3),
       s_created_at = 5,
       s_revoked_at = None \<rparr>"

definition store3 :: store where
  "store3 = \<lparr>users = [alice],
              sessions = [session1\<lparr>s_revoked_at := Some 5\<rparr>, session2, session3]\<rparr>"

text \<open>A user without a password hash, and a request without a user-agent header.\<close>

definition bob :: user where
  "bob = \<lparr>u_id = ''user:2'', u_email = ''b@x.com'', u_password_hash = None\<rparr>"

definition store_ab :: store where
  "store_ab = \<lparr>users = [alice, bob], sessions = []\<rparr>"

definition req0 :: request where
  "req0 = \<lparr>req_ip = Some ''10.0.0.2'', req_user_agent = None\<rparr>"

text \<open>Whether the callback answered with a redirect.\<close>

fun is_redirect :: "callback_outcome \<Rightarrow> bool" where
  "is_redirect (Redirected url cookies) = True"
| "is_redirect _ = False"

section \<open>Lemmas\<close>

subsection \<open>The token identifier\<close>

text \<open>
  \<^verbatim>\<open>cryptoRandomId\<close> writes every byte as two hexadecimal digits, the high half first, so the
  identifier is twice as long as the bytes drawn and different bytes give different
  identifiers.
\<close>

lemma hexDigit_inj:
  assumes "n < 16" "m < 16" "hexDigit n = hexDigit m"
  shows "n = m"
proof -
  have d: "distinct ''0123456789abcdef''" by simp
  have l: "length ''0123456789abcdef'' = 16" by simp
  from assms have "''0123456789abcdef'' ! n = ''0123456789abcdef'' ! m"
    by (simp add: hexDigit_def)
  with d l assms(1,2) show ?thesis
    by (metis nth_eq_iff_index_eq)
qed

lemma hexByte_inj:
  assumes "hexByte a = hexByte b"
  shows "a = b"
proof -
  have "unat a < 2 ^ LENGTH(8)" by (rule unsigned_less)
  then have la: "unat a < 256" by simp
  have "unat b < 2 ^ LENGTH(8)" by (rule unsigned_less)
  then have lb: "unat b < 256" by simp
  from assms have hi: "hexDigit (unat a div 16) = hexDigit (unat b div 16)"
    and lo: "hexDigit (unat a mod 16) = hexDigit (unat b mod 16)"
    by (simp_all add: hexByte_def)
  have "unat a div 16 = unat b div 16"
    using la lb hi by (intro hexDigit_inj) simp_all
  moreover have "unat a mod 16 = unat b mod 16"
    using lo by (intro hexDigit_inj) simp_all
  ultimately have "unat a = unat b"
    by (metis div_mult_mod_eq)
  then show ?thesis by (simp add: word_unat_eq_iff)
qed

lemma length_hexByte [simp]: "length (hexByte b) = 2"
  by (simp add: hexByte_def)

lemma cryptoRandomId_Nil [simp]: "cryptoRandomId [] = []"
  by (simp add: cryptoRandomId_def)

lemma cryptoRandomId_Cons [simp]: "cryptoRandomId (b # bs) = hexByte b @ cryptoRandomId bs"
  by (simp add: cryptoRandomId_def)

lemma length_cryptoRandomId: "length (cryptoRandomId rnd) = 2 * length rnd"
  by (induction rnd) simp_all

lemma cryptoRandomId_inj: "cryptoRandomId a = cryptoRandomId b \<Longrightarrow> a = b"
proof (induction a arbitrary: b)
  case Nil
  then show ?case
    using length_cryptoRandomId[of b] by (cases b) auto
next
  case (Cons x xs)
  show ?case
  proof (cases b)
    case Nil
    with Cons.prems show ?thesis
      using length_cryptoRandomId[of "x # xs"] by auto
  next
    case (Cons y ys)
    with Cons.prems have "hexByte x @ cryptoRandomId xs = hexByte y @ cryptoRandomId ys"
      by simp
    then have "hexByte x = hexByte y \<and> cryptoRandomId xs = cryptoRandomId ys"
      by (simp add: append_eq_append_conv)
    with Cons.IH Cons show ?thesis
      by (auto dest: hexByte_inj)
  qed
qed

lemma cryptoRandomId_nth:
  "i < length rnd \<Longrightarrow>
     cryptoRandomId rnd ! (2 * i) = ''0123456789abcdef'' ! (unat (rnd ! i) div 16)
   \<and> cryptoRandomId rnd ! (2 * i + 1) = ''0123456789abcdef'' ! (unat (rnd ! i) mod 16)"
proof (induction rnd arbitrary: i)
  case Nil
  then show ?case by simp
next
  case (Cons b bs)
  show ?case
  proof (cases i)
    case 0
    have "unat b < 2 ^ LENGTH(8)" by (rule unsigned_less)
    then have "unat b div 16 < 16" by simp
    then show ?thesis
      using 0 by (simp add: hexByte_def hexDigit_def)
  next
    case (Suc j)
    with Cons.prems have "j < length bs" by simp
    from Cons.IH[OF this] show ?thesis
      using Suc by (simp add: nth_append)
  qed
qed


subsection \<open>The session table\<close>

lemma find_map_same:
  assumes "\<And>x. P (f x) = P x"
  shows "find P (map f xs) = map_option f (find P xs)"
  using assms by (induction xs) simp_all

lemma find_append_first:
  "find P (xs @ ys) = (case find P xs of None \<Rightarrow> find P ys | Some x \<Rightarrow> Some x)"
  by (induction xs) simp_all

lemma findSessionByJti_Some:
  "findSessionByJti s jti = Some r \<Longrightarrow> s_jwt_id r = jti \<and> r \<in> set (sessions s)"
  by (auto simp: findSessionByJti_def find_Some_iff)

lemma revokeRow_jwt_id [simp]: "s_jwt_id (revokeRow now sid r) = s_jwt_id r"
  by (simp add: revokeRow_def)

lemma revokeRow_active [simp]:
  "s_revoked_at (revokeRow now sid r) = None \<longleftrightarrow> s_revoked_at r = None \<and> s_id r \<noteq> sid"
  by (auto simp: revokeRow_def)

lemma revokeRow_revoked [simp]:
  "(\<exists>t. s_revoked_at (revokeRow now sid r) = Some t) \<longleftrightarrow>
     (\<exists>t. s_revoked_at r = Some t) \<or> s_id r = sid"
  using revokeRow_active[of now sid r] by (metis not_None_eq)

lemma findSessionByJti_revokeSession:
  "findSessionByJti (revokeSession now sid s) jti =
     map_option (revokeRow now sid) (findSessionByJti s jti)"
  by (simp add: findSessionByJti_def revokeSession_def find_map_same)

lemma revokeSession_users [simp]: "users (revokeSession now sid s) = users s"
  by (simp add: revokeSession_def)

lemma revokeSession_keeps:
  "map s_jwt_id (sessions (revokeSession now sid s)) = map s_jwt_id (sessions s)
   \<and> map s_refresh_hash (sessions (revokeSession now sid s)) = map s_refresh_hash (sessions s)"
  by (simp add: revokeSession_def revokeRow_def)

lemma createSession_conflict:
  "findSessionByJti s (ns_jwt_id d) \<noteq> None \<Longrightarrow> createSession now d s = (Inl Conflict, s)"
  by (simp add: createSession_def)

lemma createSession_Inr:
  assumes "createSession now d s = (Inr row, s')"
  shows "findSessionByJti s (ns_jwt_id d) = None
       \<and> s' = s\<lparr>sessions := sessions s @ [row]\<rparr>
       \<and> row = \<lparr> s_id = length (sessions s), s_user_id = ns_user_id d,
                 s_jwt_id = ns_jwt_id d, s_ip = ns_ip d, s_user_agent = ns_user_agent d,
                 s_refresh_hash = ns_refresh_hash d, s_created_at = now,
                 s_revoked_at = None \<rparr>"
  using assms by (auto simp: createSession_def Let_def split: if_splits)

lemma createSession_sessions:
  "sessions (snd (createSession now d s)) = sessions s
   \<or> (\<exists>row. sessions (snd (createSession now d s)) = sessions s @ [row]
         \<and> findSessionByJti s (ns_jwt_id d) = None
         \<and> s_jwt_id row = ns_jwt_id d \<and> s_refresh_hash row = ns_refresh_hash d)"
  by (simp add: createSession_def Let_def)

lemma createSession_users [simp]: "users (snd (createSession now d s)) = users s"
  by (simp add: createSession_def Let_def)

lemma createSession_not_tagged:
  "fst (createSession now d s) \<noteq> Inl (HttpError msg st)"
  by (simp add: createSession_def Let_def)

lemma consumed_revokeSession: "consumed s jti \<Longrightarrow> consumed (revokeSession now sid s) jti"
  by (auto simp: consumed_def findSessionByJti_revokeSession split: option.splits)

lemma consumed_createSession: "consumed s jti \<Longrightarrow> consumed (snd (createSession now d s)) jti"
  using createSession_sessions[of now d s]
  by (auto simp: consumed_def findSessionByJti_def find_append_first split: option.splits)

lemma consumed_users: "consumed (s\<lparr>users := us\<rparr>) jti = consumed s jti"
  by (simp add: consumed_def findSessionByJti_def)

lemma writes_complete_same: "writes_complete s s"
  by (simp add: writes_complete_def written_def)

lemma writes_complete_create:
  assumes "ns_jwt_id d \<noteq> None" "ns_refresh_hash d \<noteq> None"
    and "map s_jwt_id (sessions s0) = map s_jwt_id (sessions s)"
    and "map s_refresh_hash (sessions s0) = map s_refresh_hash (sessions s)"
  shows "writes_complete s (snd (createSession now d s0))"
proof -
  from assms(3) have len: "length (sessions s0) = length (sessions s)"
    by (rule map_eq_imp_length_eq)
  show ?thesis
    using assms len
    by (auto simp: writes_complete_def written_def complete_def createSession_def Let_def)
qed

subsection \<open>The operations\<close>

lemma snd_case_result:
  "snd (case p of (Inl e, s') \<Rightarrow> (f e, s') | (Inr x, s') \<Rightarrow> (g x, s')) = snd p"
  by (auto split: prod.splits sum.splits)

lemma loginWithPassword_success:
  assumes "loginWithPassword E now rnd email password m s = (Inr res, s')"
  shows "\<exists>user h row.
           findUserByEmail s email = Some user
         \<and> u_password_hash user = Some h \<and> h \<noteq> [] \<and> bcrypt_compare E password h
         \<and> res = \<lparr>tp_user = user,
                   tp_access = signAccessToken E now
                     \<lparr>a_sub = Some (u_id user), a_email = Some (u_email user)\<rparr>,
                   tp_refresh = signRefreshToken E now
                     \<lparr>r_sub = Some (u_id user), r_jti = Some (cryptoRandomId rnd)\<rparr>\<rparr>
         \<and> createSession now
               \<lparr> ns_user_id = Some (u_id user),
                 ns_jwt_id = Some (cryptoRandomId rnd),
                 ns_ip = m_ip m,
                 ns_user_agent = m_user_agent m,
                 ns_refresh_hash = Some (hashToken E (signRefreshToken E now
                     \<lparr>r_sub = Some (u_id user), r_jti = Some (cryptoRandomId rnd)\<rparr>)) \<rparr>
               s = (Inr row, s')"
  using assms
  by (auto simp: loginWithPassword_def Let_def InvalidCredentials_def
      split: option.splits prod.splits sum.splits if_splits)

text \<open>
  \<^verbatim>\<open>loginWithPassword\<close> does not compare the identifier it draws with the earlier ones; the
  session table does. A login with the right password succeeds exactly when the identifier
  is not in the table yet, and fails with \<open>Conflict\<close>, writing nothing, when it is.
\<close>

lemma loginWithPassword_succeeds_iff:
  "(\<exists>res s'. loginWithPassword E now rnd email password m s = (Inr res, s')) \<longleftrightarrow>
     (\<exists>user h. findUserByEmail s email = Some user \<and> u_password_hash user = Some h
        \<and> h \<noteq> [] \<and> bcrypt_compare E password h)
     \<and> findSessionByJti s (Some (cryptoRandomId rnd)) = None"
  by (auto simp: loginWithPassword_def createSession_def Let_def InvalidCredentials_def
      split: option.splits)

lemma loginWithPassword_taken_identifier:
  assumes "findUserByEmail s email = Some user" "u_password_hash user = Some h" "h \<noteq> []"
    and "bcrypt_compare E password h"
    and "findSessionByJti s (Some (cryptoRandomId rnd)) \<noteq> None"
  shows "loginWithPassword E now rnd email password m s = (Inl Conflict, s)"
  using assms by (simp add: loginWithPassword_def createSession_def Let_def)

lemma loginWithPassword_store:
  "snd (loginWithPassword E now rnd email password m s) = s
   \<or> (\<exists>d. ns_jwt_id d \<noteq> None \<and> ns_refresh_hash d \<noteq> None
         \<and> snd (loginWithPassword E now rnd email password m s) = snd (createSession now d s))"
proof (cases "findUserByEmail s email")
  case None
  then show ?thesis by (simp add: loginWithPassword_def)
next
  case (Some user)
  show ?thesis
  proof (cases "\<exists>h. u_password_hash user = Some h \<and> h \<noteq> [] \<and> bcrypt_compare E password h")
    case False
    with Some show ?thesis by (auto simp: loginWithPassword_def split: option.splits)
  next
    case True
    let ?d = "\<lparr> ns_user_id = Some (u_id user),
                ns_jwt_id = Some (cryptoRandomId rnd),
                ns_ip = m_ip m,
                ns_user_agent = m_user_agent m,
                ns_refresh_hash = Some (hashToken E (signRefreshToken E now
                    \<lparr>r_sub = Some (u_id user), r_jti = Some (cryptoRandomId rnd)\<rparr>)) \<rparr>"
    from Some True
    have "snd (loginWithPassword E now rnd email password m s) = snd (createSession now ?d s)"
      by (auto simp: loginWithPassword_def Let_def snd_case_result)
    moreover have "ns_jwt_id ?d \<noteq> None \<and> ns_refresh_hash ?d \<noteq> None" by simp
    ultimately show ?thesis by blast
  qed
qed

lemma refreshSession_verified:
  assumes "verifyRefreshToken E now tok = Some payload"
  shows "refreshSession E now rnd tok s =
     (case findSessionByJti s (r_jti payload) of
        None \<Rightarrow> (Inl SessionRevoked, s)
      | Some session \<Rightarrow>
          if s_revoked_at session \<noteq> None then (Inl SessionRevoked, s)
          else if s_refresh_hash session \<noteq> Some (hashToken E tok) then (Inl InvalidToken, s)
          else (case findUserById s (r_sub payload) of
                  None \<Rightarrow> (Inl TypeError, s)
                | Some user \<Rightarrow>
                    (case createSession now
                            \<lparr> ns_user_id = Some (u_id user),
                              ns_jwt_id = Some (cryptoRandomId rnd),
                              ns_ip = s_ip session,
                              ns_user_agent = s_user_agent session,
                              ns_refresh_hash = Some (hashToken E (signRefreshToken E now
                                     \<lparr>r_sub = Some (u_id user), r_jti = Some (cryptoRandomId rnd)\<rparr>)) \<rparr>
                            (revokeSession now (s_id session) s) of
                       (Inl e, s2) \<Rightarrow> (Inl e, s2)
                     | (Inr _, s2) \<Rightarrow>
                         (Inr \<lparr>tp_user = user,
                               tp_access = signAccessToken E now
                                     \<lparr>a_sub = Some (u_id user), a_email = Some (u_email user)\<rparr>,
                               tp_refresh = signRefreshToken E now
                                     \<lparr>r_sub = Some (u_id user), r_jti = Some (cryptoRandomId rnd)\<rparr>\<rparr>,
                          s2))))"
  using assms by (simp add: refreshSession_def Let_def split: option.split)

lemma refreshSession_success:
  assumes "refreshSession E now rnd tok s = (Inr res, s')"
  shows "\<exists>payload old user row.
           verifyRefreshToken E now tok = Some payload
         \<and> findSessionByJti s (r_jti payload) = Some old
         \<and> s_revoked_at old = None
         \<and> s_refresh_hash old = Some (hashToken E tok)
         \<and> findUserById s (r_sub payload) = Some user
         \<and> res = \<lparr>tp_user = user,
                   tp_access = signAccessToken E now
                     \<lparr>a_sub = Some (u_id user), a_email = Some (u_email user)\<rparr>,
                   tp_refresh = signRefreshToken E now
                     \<lparr>r_sub = Some (u_id user), r_jti = Some (cryptoRandomId rnd)\<rparr>\<rparr>
         \<and> createSession now
               \<lparr> ns_user_id = Some (u_id user),
                 ns_jwt_id = Some (cryptoRandomId rnd),
                 ns_ip = s_ip old,
                 ns_user_agent = s_user_agent old,
                 ns_refresh_hash = Some (hashToken E (signRefreshToken E now
                     \<lparr>r_sub = Some (u_id user), r_jti = Some (cryptoRandomId rnd)\<rparr>)) \<rparr>
               (revokeSession now (s_id old) s) = (Inr row, s')"
  using assms
  by (auto simp: refreshSession_def Let_def SessionRevoked_def InvalidToken_def
      split: option.splits prod.splits sum.splits if_splits)

text \<open>
  The revocation comes first: when the freshly drawn identifier is already taken, the call
  fails with \<open>Conflict\<close> and the store keeps the revocation of the old session.
\<close>

lemma refreshSession_revokes_first:
  assumes "verifyRefreshToken E now tok = Some payload"
    and "findSessionByJti s (r_jti payload) = Some old"
    and "s_revoked_at old = None"
    and "s_refresh_hash old = Some (hashToken E tok)"
    and "findUserById s (r_sub payload) = Some user"
    and "findSessionByJti s (Some (cryptoRandomId rnd)) \<noteq> None"
  shows "refreshSession E now rnd tok s = (Inl Conflict, revokeSession now (s_id old) s)"
proof -
  have "findSessionByJti (revokeSession now (s_id old) s) (Some (cryptoRandomId rnd)) \<noteq> None"
    using assms(6) by (simp add: findSessionByJti_revokeSession)
  then show ?thesis
    using assms(1-5) by (simp add: refreshSession_verified createSession_conflict)
qed

lemma refreshSession_store:
  "snd (refreshSession E now rnd tok s) = s
   \<or> (\<exists>d sid. ns_jwt_id d \<noteq> None \<and> ns_refresh_hash d \<noteq> None
         \<and> snd (refreshSession E now rnd tok s)
             = snd (createSession now d (revokeSession now sid s)))"
proof (cases "\<exists>payload old user. verifyRefreshToken E now tok = Some payload
         \<and> findSessionByJti s (r_jti payload) = Some old
         \<and> s_revoked_at old = None
         \<and> s_refresh_hash old = Some (hashToken E tok)
         \<and> findUserById s (r_sub payload) = Some user")
  case False
  then show ?thesis
    by (auto simp: refreshSession_def split: option.splits)
next
  case True
  then obtain payload old user where
    h: "verifyRefreshToken E now tok = Some payload"
       "findSessionByJti s (r_jti payload) = Some old"
       "s_revoked_at old = None"
       "s_refresh_hash old = Some (hashToken E tok)"
       "findUserById s (r_sub payload) = Some user"
    by blast
  let ?d = "\<lparr> ns_user_id = Some (u_id user),
              ns_jwt_id = Some (cryptoRandomId rnd),
              ns_ip = s_ip old,
              ns_user_agent = s_user_agent old,
              ns_refresh_hash = Some (hashToken E (signRefreshToken E now
                  \<lparr>r_sub = Some (u_id user), r_jti = Some (cryptoRandomId rnd)\<rparr>)) \<rparr>"
  from h have "snd (refreshSession E now rnd tok s)
      = snd (createSession now ?d (revokeSession now (s_id old) s))"
    by (simp add: refreshSession_def Let_def snd_case_result)
  moreover have "ns_jwt_id ?d \<noteq> None \<and> ns_refresh_hash ?d \<noteq> None" by simp
  ultimately show ?thesis by blast
qed

text \<open>
  The case the guard of \<^verbatim>\<open>googleCallback\<close> does not cover: no error and no user. The callback
  signs tokens without a subject, writes a session without an owner and redirects to the
  notebooks page.
\<close>

lemma googleCallback_denied:
  "googleCallback E now rnd None None req s =
     (case createSession now
             \<lparr> ns_user_id = None,
               ns_jwt_id = Some (cryptoRandomId rnd),
               ns_ip = req_ip req,
               ns_user_agent =
                 Some (case req_user_agent req of
                         None \<Rightarrow> ''unknown''
                       | Some ua \<Rightarrow> if ua = [] then ''unknown'' else ua),
               ns_refresh_hash = Some (hashToken E (signRefreshToken E now
                   \<lparr>r_sub = None, r_jti = Some (cryptoRandomId rnd)\<rparr>)) \<rparr> s of
        (Inl e, s') \<Rightarrow> (Rejected e, s')
      | (Inr _, s') \<Rightarrow>
          (Redirected (APP_URL E @ ''/notebooks'')
             [(''access_token'', signAccessToken E now \<lparr>a_sub = None, a_email = None\<rparr>,
               createCookieOptions E False),
              (''refresh_token'', signRefreshToken E now
                   \<lparr>r_sub = None, r_jti = Some (cryptoRandomId rnd)\<rparr>,
               createCookieOptions E True)],
           s'))"
  by (simp add: googleCallback_def Let_def)

lemma googleCallback_store:
  "snd (googleCallback E now rnd err user req s) = s
   \<or> (\<exists>d. ns_jwt_id d \<noteq> None \<and> ns_refresh_hash d \<noteq> None
         \<and> snd (googleCallback E now rnd err user req s) = snd (createSession now d s))"
proof (cases err)
  case (Some e)
  then show ?thesis by (simp add: googleCallback_def)
next
  case None
  let ?d = "\<lparr> ns_user_id = map_option u_id user,
              ns_jwt_id = Some (cryptoRandomId rnd),
              ns_ip = req_ip req,
              ns_user_agent =
                Some (case req_user_agent req of
                        None \<Rightarrow> ''unknown''
                      | Some ua \<Rightarrow> if ua = [] then ''unknown'' else ua),
              ns_refresh_hash = Some (hashToken E (signRefreshToken E now
                  \<lparr>r_sub = map_option u_id user, r_jti = Some (cryptoRandomId rnd)\<rparr>)) \<rparr>"
  from None have "snd (googleCallback E now rnd err user req s) = snd (createSession now ?d s)"
    by (simp add: googleCallback_def Let_def snd_case_result)
  moreover have "ns_jwt_id ?d \<noteq> None \<and> ns_refresh_hash ?d \<noteq> None" by simp
  ultimately show ?thesis by blast
qed

lemma consumed_exec: "consumed s jti \<Longrightarrow> consumed (exec E x s) jti"
proof (cases x)
  case (OpLogin now rnd email password m)
  then show "consumed s jti \<Longrightarrow> ?thesis"
    using loginWithPassword_store[of E now rnd email password m s]
    by (auto simp: consumed_createSession)
next
  case (OpRefresh now rnd tok)
  then show "consumed s jti \<Longrightarrow> ?thesis"
    using refreshSession_store[of E now rnd tok s]
    by (auto simp: consumed_createSession consumed_revokeSession)
next
  case (OpGoogle now rnd err user req)
  then show "consumed s jti \<Longrightarrow> ?thesis"
    using googleCallback_store[of E now rnd err user req s]
    by (auto simp: consumed_createSession)
next
  case (OpLogout now sid)
  then show "consumed s jti \<Longrightarrow> ?thesis"
    by (simp add: consumed_revokeSession)
next
  case (OpRegister u)
  then show "consumed s jti \<Longrightarrow> ?thesis"
    by (simp add: consumed_users)
qed

lemma consumed_run: "consumed s jti \<Longrightarrow> consumed (run E xs s) jti"
  by (induction xs arbitrary: s) (simp_all add: consumed_exec)

lemma refreshSession_consumes:
  assumes "refreshSession E now rnd tok s = (Inr res, s')"
  shows "\<exists>payload. verifyRefreshToken E now tok = Some payload \<and> consumed s' (r_jti payload)"
proof -
  from refreshSession_success[OF assms] obtain payload old user row d where
    v: "verifyRefreshToken E now tok = Some payload"
    and f: "findSessionByJti s (r_jti payload) = Some old"
    and c: "createSession now d (revokeSession now (s_id old) s) = (Inr row, s')"
    by blast
  have "consumed (revokeSession now (s_id old) s) (r_jti payload)"
    using f by (simp add: consumed_def findSessionByJti_revokeSession)
  then have "consumed (snd (createSession now d (revokeSession now (s_id old) s))) (r_jti payload)"
    by (rule consumed_createSession)
  with c v show ?thesis by simp
qed

lemma refreshSession_replay:
  assumes "verifyRefreshToken E now tok = Some payload" "consumed s (r_jti payload)"
  shows "refreshSession E now rnd tok s = (Inl SessionRevoked, s)"
  using assms by (auto simp: refreshSession_def consumed_def split: option.splits)

text \<open>A call that takes its four steps with no other call in between is \<^verbatim>\<open>refreshSession\<close>.\<close>

lemma refreshSession_alone:
  "interleave E now rnd rndB [False, False, False, False] (Start tok, b, s) =
     (Finished (fst (refreshSession E now rnd tok s)), b, snd (refreshSession E now rnd tok s))"
  by (auto simp: refreshSession_def Let_def split: option.splits prod.splits sum.splits)

subsection \<open>The concrete instance\<close>

lemma dec_enc_opt: "dec_opt (enc_opt x) = x"
  by (simp add: dec_opt_def enc_opt_def split: option.split)

lemma takeWhile_unary:
  "takeWhile (\<lambda>c. c = CHR ''i'') (replicate n CHR ''i'' @ CHR ''.'' # r) = replicate n CHR ''i''"
  by (induction n) simp_all

lemma unpack_pack: "unpack (pack e a b) = Some (e, a, b)"
  by (simp add: unpack_def pack_def takeWhile_unary Let_def)

lemma sample_access_roundtrip:
  "verifyAccessToken sample_env now (signAccessToken sample_env now p) = Some p"
  by (simp add: sample_env_def unpack_pack dec_enc_opt)

lemma sample_verify_refresh:
  "verifyRefreshToken sample_env now (signRefreshToken sample_env t p) =
     (if now < t + 30 then Some p else None)"
  by (simp add: sample_env_def unpack_pack dec_enc_opt)

lemma sample_verify_access:
  "verifyAccessToken sample_env now (signAccessToken sample_env t p) =
     (if now < t + 15 then Some p else None)"
  by (simp add: sample_env_def unpack_pack dec_enc_opt)

lemma sample_access_nonempty: "signAccessToken sample_env t p \<noteq> []"
  by (simp add: sample_env_def)

lemma sample_hash: "hashToken sample_env t = ''sha256:'' @ t"
  by (simp add: sample_env_def)

lemma sample_bcrypt: "bcrypt_compare sample_env password h \<longleftrightarrow> h = ''bcrypt:'' @ password"
  by (simp add: sample_env_def)

lemma id1: "cryptoRandomId bytes1 = ''0102030405060708090a0b0c0d0e0f10''"
  by (simp add: cryptoRandomId_def bytes1_def hexByte_def hexDigit_def)

lemma id2: "cryptoRandomId bytes2 = ''fffefdfcfbfaf9f8f7f6f5f4f3f2f1f0''"
  by (simp add: cryptoRandomId_def bytes2_def hexByte_def hexDigit_def)

lemma id3: "cryptoRandomId bytes3 = ''102030405060708090a0b0c0d0e0f000''"
  by (simp add: cryptoRandomId_def bytes3_def hexByte_def hexDigit_def)

lemma verify_token1:
  "verifyRefreshToken sample_env now token1 =
     (if now < 30 then Some \<lparr>r_sub = Some ''user:1'', r_jti = Some (cryptoRandomId bytes1)\<rparr>
      else None)"
  by (simp add: token1_def sample_verify_refresh)

lemma login_alice:
  "loginWithPassword sample_env 0 bytes1 ''a@x.com'' ''correct'' meta0 store0 =
     (Inr \<lparr>tp_user = alice,
           tp_access = signAccessToken sample_env 0
                         \<lparr>a_sub = Some ''user:1'', a_email = Some ''a@x.com''\<rparr>,
           tp_refresh = token1\<rparr>,
      store1)"
  by (simp add: loginWithPassword_def findUserByEmail_def store0_def alice_def meta0_def
      createSession_def findSessionByJti_def store1_def session1_def token1_def Let_def
      sample_env_def)

lemma refresh_token1:
  "refreshSession sample_env 5 bytes2 token1 store1 =
     (Inr \<lparr>tp_user = alice, tp_access = access2, tp_refresh = token2\<rparr>, store2)"
  by (simp add: refreshSession_def verify_token1 findSessionByJti_def store1_def session1_def
      findUserById_def alice_def revokeSession_def revokeRow_def createSession_def Let_def
      id1 id2 store2_def session2_def token2_def access2_def)

lemma login_again:
  "loginWithPassword sample_env 5 bytes2 ''a@x.com'' ''correct'' meta0 store1 =
     (Inr \<lparr>tp_user = alice, tp_access = access2, tp_refresh = token2\<rparr>, store_two_logins)"
  by (simp add: loginWithPassword_def findUserByEmail_def store1_def alice_def meta0_def
      createSession_def findSessionByJti_def session1_def session2_def token2_def access2_def
      store_two_logins_def sample_bcrypt id1 id2 Let_def)

lemma login_taken_identifier:
  "loginWithPassword sample_env 5 bytes1 ''a@x.com'' ''correct'' meta0 store1 = (Inl Conflict, store1)"
  by (rule loginWithPassword_taken_identifier[where user = alice and h = "''bcrypt:correct''"])
     (simp_all add: findUserByEmail_def store1_def alice_def sample_bcrypt findSessionByJti_def
        session1_def)

subsection \<open>Two calls at once\<close>

text \<open>
  Whenever a refresh would succeed and two different unused identifiers are drawn, two
  calls that take their steps in turn both succeed, and both new sessions are active.
\<close>

lemma concurrent_refresh_race:
  assumes v: "verifyRefreshToken E now tok = Some payload"
    and f: "findSessionByJti s (r_jti payload) = Some old"
    and a: "s_revoked_at old = None"
    and h: "s_refresh_hash old = Some (hashToken E tok)"
    and u: "findUserById s (r_sub payload) = Some user"
    and freshA: "findSessionByJti s (Some (cryptoRandomId rndA)) = None"
    and freshB: "findSessionByJti s (Some (cryptoRandomId rndB)) = None"
    and differ: "cryptoRandomId rndA \<noteq> cryptoRandomId rndB"
  shows "\<exists>resA resB rowA rowB.
           interleave E now rndA rndB [False, True, False, True, False, True, False, True]
             (Start tok, Start tok, s) =
             (Finished (Inr resA), Finished (Inr resB),
              s\<lparr>sessions := map (revokeRow now (s_id old)) (sessions s) @ [rowA, rowB]\<rparr>)
         \<and> s_revoked_at rowA = None \<and> s_revoked_at rowB = None
         \<and> s_jwt_id rowA = Some (cryptoRandomId rndA)
         \<and> s_jwt_id rowB = Some (cryptoRandomId rndB)"
proof -
  define s1 where "s1 = revokeSession now (s_id old) s"
  define dA where "dA = \<lparr> ns_user_id = Some (u_id user),
               ns_jwt_id = Some (cryptoRandomId rndA),
               ns_ip = s_ip old,
               ns_user_agent = s_user_agent old,
               ns_refresh_hash = Some (hashToken E (signRefreshToken E now
                   \<lparr>r_sub = Some (u_id user), r_jti = Some (cryptoRandomId rndA)\<rparr>)) \<rparr>"
  define dB where "dB = \<lparr> ns_user_id = Some (u_id user),
               ns_jwt_id = Some (cryptoRandomId rndB),
               ns_ip = s_ip old,
               ns_user_agent = s_user_agent old,
               ns_refresh_hash = Some (hashToken E (signRefreshToken E now
                   \<lparr>r_sub = Some (u_id user), r_jti = Some (cryptoRandomId rndB)\<rparr>)) \<rparr>"
  have idem: "revokeSession now (s_id old) s1 = s1"
    by (simp add: s1_def revokeSession_def revokeRow_def)
  have fa: "findSessionByJti s1 (ns_jwt_id dA) = None"
    using freshA by (simp add: s1_def dA_def findSessionByJti_revokeSession)
  obtain rowA where cA: "createSession now dA s1 = (Inr rowA, s1\<lparr>sessions := sessions s1 @ [rowA]\<rparr>)"
    and rA: "s_revoked_at rowA = None" "s_jwt_id rowA = ns_jwt_id dA"
    using fa by (simp add: createSession_def Let_def)
  define s2 where "s2 = s1\<lparr>sessions := sessions s1 @ [rowA]\<rparr>"
  have fb: "findSessionByJti s2 (ns_jwt_id dB) = None"
    using freshB differ rA
    by (simp add: s2_def s1_def dA_def dB_def findSessionByJti_def revokeSession_def
        find_append_first find_map_same)
  obtain rowB where cB: "createSession now dB s2 = (Inr rowB, s2\<lparr>sessions := sessions s2 @ [rowB]\<rparr>)"
    and rB: "s_revoked_at rowB = None" "s_jwt_id rowB = ns_jwt_id dB"
    using fb by (simp add: createSession_def Let_def)
  have final: "s2\<lparr>sessions := sessions s2 @ [rowB]\<rparr>
      = s\<lparr>sessions := map (revokeRow now (s_id old)) (sessions s) @ [rowA, rowB]\<rparr>"
    by (simp add: s2_def s1_def revokeSession_def)
  have run: "interleave E now rndA rndB [False, True, False, True, False, True, False, True]
             (Start tok, Start tok, s) =
       (Finished (Inr \<lparr>tp_user = user,
           tp_access = signAccessToken E now
              \<lparr>a_sub = Some (u_id user), a_email = Some (u_email user)\<rparr>,
           tp_refresh = signRefreshToken E now
              \<lparr>r_sub = Some (u_id user), r_jti = Some (cryptoRandomId rndA)\<rparr>\<rparr>),
        Finished (Inr \<lparr>tp_user = user,
           tp_access = signAccessToken E now
              \<lparr>a_sub = Some (u_id user), a_email = Some (u_email user)\<rparr>,
           tp_refresh = signRefreshToken E now
              \<lparr>r_sub = Some (u_id user), r_jti = Some (cryptoRandomId rndB)\<rparr>\<rparr>),
        s2\<lparr>sessions := sessions s2 @ [rowB]\<rparr>)"
    using v f a h u idem cA cB
    by (simp add: Let_def s1_def[symmetric] dA_def[symmetric] dB_def[symmetric] s2_def[symmetric])
  show ?thesis
    using run rA rB unfolding final
    by (intro exI[of _ rowA] exI[of _ rowB] exI) (simp add: dA_def dB_def)
qed

text \<open>One call after the other: the second finds the session revoked.\<close>

lemma refresh_one_after_the_other:
  "interleave sample_env 5 bytes2 bytes3 [False, False, False, False, True, True]
     (Start token1, Start token1, store1) =
     (Finished (Inr \<lparr>tp_user = alice, tp_access = access2, tp_refresh = token2\<rparr>),
      Finished (Inl SessionRevoked),
      store2)"
  by (simp add: verify_token1 findSessionByJti_def store1_def session1_def
      findUserById_def alice_def revokeSession_def revokeRow_def createSession_def Let_def
      id1 id2 store2_def session2_def token2_def access2_def)

section \<open>The claims\<close>

text \<open>
  C1, as amended. A refresh token that has been used in a successful refresh is never
  accepted again, whatever requests were served in between: if the token still passes
  verification as it did at its first use, \<^verbatim>\<open>refreshSession\<close> fails with \<open>SessionRevoked\<close>,
  because the session found by its identifier is revoked; if the verifier rejects the token
  (it has expired), the call fails with the verifier's error before the session is looked
  up. Either way the store is left as it was.
\<close>

theorem C1_replay_fails:
  assumes "refreshSession E t1 rnd1 tok s = (Inr res, s1)"
    and "verifyRefreshToken E t2 tok = None \<or> verifyRefreshToken E t2 tok = verifyRefreshToken E t1 tok"
  shows "refreshSession E t2 rnd2 tok (run E later s1) =
           (Inl (if verifyRefreshToken E t2 tok = None then JwtError else SessionRevoked),
            run E later s1)"
proof (cases "verifyRefreshToken E t2 tok")
  case None
  then show ?thesis by (simp add: refreshSession_def)
next
  case (Some p2)
  from refreshSession_consumes[OF assms(1)] obtain payload where
    v: "verifyRefreshToken E t1 tok = Some payload" and c: "consumed s1 (r_jti payload)"
    by blast
  from Some assms(2) v have "verifyRefreshToken E t2 tok = Some payload" by simp
  moreover have "consumed (run E later s1) (r_jti payload)"
    using c by (rule consumed_run)
  ultimately show ?thesis
    using refreshSession_replay[of E t2 tok payload "run E later s1" rnd2] by simp
qed

text \<open>Alice's token is used at time 5; she logs in again; the replay at time 7 is refused.\<close>

theorem C1_replay_fails_witness:
  "refreshSession sample_env 5 bytes2 token1 store1 =
     (Inr \<lparr>tp_user = alice, tp_access = access2, tp_refresh = token2\<rparr>, store2)
   \<and> verifyRefreshToken sample_env 7 token1 = verifyRefreshToken sample_env 5 token1
   \<and> fst (refreshSession sample_env 7 bytes3 token1
            (run sample_env [OpLogin 7 bytes3 ''a@x.com'' ''correct'' meta0] store2))
       = Inl SessionRevoked"
  using C1_replay_fails[OF refresh_token1, of 7 bytes3 "[OpLogin 7 bytes3 ''a@x.com'' ''correct'' meta0]"]
  by (simp add: refresh_token1 verify_token1)

text \<open>
  C1 as stated says the replay always fails with \<open>SessionRevoked\<close>. The token used at time 5
  and replayed at time 40, after its expiry at 30, is rejected by the verifier instead.
\<close>

theorem C1_replay_expired_counterexample:
  "refreshSession sample_env 5 bytes2 token1 store1 =
     (Inr \<lparr>tp_user = alice, tp_access = access2, tp_refresh = token2\<rparr>, store2)
   \<and> refreshSession sample_env 40 bytes3 token1 store2 = (Inl JwtError, store2)
   \<and> Inl JwtError \<noteq> (Inl SessionRevoked :: error + token_pair)"
proof -
  have "refreshSession sample_env 40 bytes3 token1 store2 = (Inl JwtError, store2)"
    by (simp add: refreshSession_def verify_token1)
  then show ?thesis
    by (simp add: refresh_token1 SessionRevoked_def)
qed

text \<open>
  C2. When the token verifies, \<^verbatim>\<open>refreshSession\<close> fails with \<open>SessionRevoked\<close> exactly when the
  session found by the token's identifier is absent or has a revocation timestamp, and
  with \<open>InvalidToken\<close> exactly when that session is active and its stored hash differs from
  the hash of the presented token; in both cases the store is unchanged.
\<close>

theorem C2_refresh_failures:
  assumes "verifyRefreshToken E now tok = Some payload"
  shows "(fst (refreshSession E now rnd tok s) = Inl SessionRevoked \<longleftrightarrow>
            (case findSessionByJti s (r_jti payload) of
               None \<Rightarrow> True | Some session \<Rightarrow> s_revoked_at session \<noteq> None))
       \<and> (fst (refreshSession E now rnd tok s) = Inl InvalidToken \<longleftrightarrow>
            (case findSessionByJti s (r_jti payload) of
               None \<Rightarrow> False
             | Some session \<Rightarrow> s_revoked_at session = None
                  \<and> s_refresh_hash session \<noteq> Some (hashToken E tok)))
       \<and> (fst (refreshSession E now rnd tok s) = Inl SessionRevoked
            \<or> fst (refreshSession E now rnd tok s) = Inl InvalidToken
          \<longrightarrow> snd (refreshSession E now rnd tok s) = s)"
  using createSession_not_tagged
  apply (simp add: refreshSession_verified[OF assms] SessionRevoked_def InvalidToken_def
      split: option.splits prod.splits sum.splits)
  apply (auto simp: createSession_def Let_def split: if_splits)
  done

text \<open>
  At time 7 the token of the revoked session is refused with \<open>SessionRevoked\<close>, and the same
  token against an active session with another stored hash is refused with \<open>InvalidToken\<close>.
\<close>

theorem C2_refresh_failures_witness:
  "verifyRefreshToken sample_env 7 token1
     = Some \<lparr>r_sub = Some ''user:1'', r_jti = Some (cryptoRandomId bytes1)\<rparr>
   \<and> fst (refreshSession sample_env 7 bytes3 token1 store2) = Inl SessionRevoked
   \<and> fst (refreshSession sample_env 7 bytes3 token1
            \<lparr>users = [alice], sessions = [session1\<lparr>s_refresh_hash := Some ''other''\<rparr>]\<rparr>)
       = Inl InvalidToken
   \<and> snd (refreshSession sample_env 7 bytes3 token1 store2) = store2"
  using C2_refresh_failures[of sample_env 7 token1
          "\<lparr>r_sub = Some ''user:1'', r_jti = Some (cryptoRandomId bytes1)\<rparr>" bytes3 store2]
        C2_refresh_failures[of sample_env 7 token1
          "\<lparr>r_sub = Some ''user:1'', r_jti = Some (cryptoRandomId bytes1)\<rparr>" bytes3
          "\<lparr>users = [alice], sessions = [session1\<lparr>s_refresh_hash := Some ''other''\<rparr>]\<rparr>"]
  by (simp add: verify_token1 findSessionByJti_def store2_def session1_def session2_def id1 id2
       sample_hash)

text \<open>
  C3. A login fails in the same way, with the error \<open>Invalid credentials\<close> of status 401 and
  an unchanged store, whether the email is unknown, the user has no stored password hash
  (or an empty one), or the password does not match.
\<close>

theorem C3_login_failures_identical:
  assumes "findUserByEmail s email = None
         \<or> (\<exists>u. findUserByEmail s email = Some u
               \<and> (u_password_hash u = None
                  \<or> u_password_hash u = Some []
                  \<or> (\<exists>h. u_password_hash u = Some h \<and> \<not> bcrypt_compare E password h)))"
  shows "loginWithPassword E now rnd email password m s
           = (Inl (HttpError ''Invalid credentials'' 401), s)"
  using assms
  by (auto simp: loginWithPassword_def InvalidCredentials_def split: option.splits)

text \<open>An unknown email, a user without a password hash and a wrong password.\<close>

theorem C3_login_failures_identical_witness:
  "loginWithPassword sample_env 0 bytes1 ''nobody@x.com'' ''correct'' meta0 store_ab
     = (Inl (HttpError ''Invalid credentials'' 401), store_ab)
   \<and> loginWithPassword sample_env 0 bytes1 ''b@x.com'' ''correct'' meta0 store_ab
     = (Inl (HttpError ''Invalid credentials'' 401), store_ab)
   \<and> loginWithPassword sample_env 0 bytes1 ''a@x.com'' ''wrong'' meta0 store_ab
     = (Inl (HttpError ''Invalid credentials'' 401), store_ab)"
  using C3_login_failures_identical[of store_ab "''nobody@x.com''" sample_env "''correct''" 0 bytes1 meta0]
        C3_login_failures_identical[of store_ab "''b@x.com''" sample_env "''correct''" 0 bytes1 meta0]
        C3_login_failures_identical[of store_ab "''a@x.com''" sample_env "''wrong''" 0 bytes1 meta0]
  by (simp add: findUserByEmail_def store_ab_def alice_def bob_def sample_bcrypt)

text \<open>
  C4. A successful password login draws a token identifier: the sixteen random bytes of
  the call written as hexadecimal digits, two per byte, so that other bytes would have
  given another identifier; no earlier session carries it. The login returns the user
  found by the email with an access token signed over that user's id and email and a
  refresh token signed over the user's id and the identifier. It appends exactly one
  session, active, owned by that user, carrying the identifier and the hash of the
  returned refresh token, and changes nothing else. Given that the verifier accepts what
  the signer has just signed, the returned access token verifies and decodes to the id of
  the user who logged in.
\<close>

theorem C4_login_success:
  assumes "loginWithPassword E now rnd email password m s = (Inr res, s')"
    and "\<forall>p. verifyAccessToken E now (signAccessToken E now p) = Some p"
  shows "\<exists>row. findUserByEmail s email = Some (tp_user res)
         \<and> tp_access res = signAccessToken E now
               \<lparr>a_sub = Some (u_id (tp_user res)), a_email = Some (u_email (tp_user res))\<rparr>
         \<and> tp_refresh res = signRefreshToken E now
               \<lparr>r_sub = Some (u_id (tp_user res)), r_jti = Some (cryptoRandomId rnd)\<rparr>
         \<and> sessions s' = sessions s @ [row]
         \<and> users s' = users s
         \<and> s_jwt_id row = Some (cryptoRandomId rnd)
         \<and> length (cryptoRandomId rnd) = 2 * length rnd
         \<and> (\<forall>i<length rnd.
               cryptoRandomId rnd ! (2 * i) = ''0123456789abcdef'' ! (unat (rnd ! i) div 16)
             \<and> cryptoRandomId rnd ! (2 * i + 1) = ''0123456789abcdef'' ! (unat (rnd ! i) mod 16))
         \<and> (\<forall>rnd'. cryptoRandomId rnd' = cryptoRandomId rnd \<longrightarrow> rnd' = rnd)
         \<and> findSessionByJti s (Some (cryptoRandomId rnd)) = None
         \<and> s_refresh_hash row = Some (hashToken E (tp_refresh res))
         \<and> s_user_id row = Some (u_id (tp_user res))
         \<and> s_revoked_at row = None
         \<and> (\<exists>p. verifyAccessToken E now (tp_access res) = Some p
                \<and> a_sub p = Some (u_id (tp_user res)))"
proof -
  from loginWithPassword_success[OF assms(1)] obtain user row d where
    u: "findUserByEmail s email = Some user"
    and r: "res = \<lparr>tp_user = user,
                   tp_access = signAccessToken E now
                     \<lparr>a_sub = Some (u_id user), a_email = Some (u_email user)\<rparr>,
                   tp_refresh = signRefreshToken E now
                     \<lparr>r_sub = Some (u_id user), r_jti = Some (cryptoRandomId rnd)\<rparr>\<rparr>"
    and d: "d = \<lparr> ns_user_id = Some (u_id user),
                 ns_jwt_id = Some (cryptoRandomId rnd),
                 ns_ip = m_ip m,
                 ns_user_agent = m_user_agent m,
                 ns_refresh_hash = Some (hashToken E (signRefreshToken E now
                     \<lparr>r_sub = Some (u_id user), r_jti = Some (cryptoRandomId rnd)\<rparr>)) \<rparr>"
    and c: "createSession now d s = (Inr row, s')"
    by blast
  note cr = createSession_Inr[OF c]
  have v: "verifyAccessToken E now (tp_access res)
          = Some \<lparr>a_sub = Some (u_id user), a_email = Some (u_email user)\<rparr>"
    using assms(2) r by simp
  have hex: "\<forall>i<length rnd.
               cryptoRandomId rnd ! (2 * i) = ''0123456789abcdef'' ! (unat (rnd ! i) div 16)
             \<and> cryptoRandomId rnd ! (2 * i + 1) = ''0123456789abcdef'' ! (unat (rnd ! i) mod 16)"
    using cryptoRandomId_nth by blast
  have inj: "\<forall>rnd'. cryptoRandomId rnd' = cryptoRandomId rnd \<longrightarrow> rnd' = rnd"
    using cryptoRandomId_inj by blast
  have row: "sessions s' = sessions s @ [row] \<and> users s' = users s
      \<and> s_jwt_id row = Some (cryptoRandomId rnd)
      \<and> findSessionByJti s (Some (cryptoRandomId rnd)) = None
      \<and> s_refresh_hash row = Some (hashToken E (tp_refresh res))
      \<and> s_user_id row = Some (u_id (tp_user res))
      \<and> s_revoked_at row = None"
    using r d cr by simp
  have res: "findUserByEmail s email = Some (tp_user res)
      \<and> tp_access res = signAccessToken E now
               \<lparr>a_sub = Some (u_id (tp_user res)), a_email = Some (u_email (tp_user res))\<rparr>
      \<and> tp_refresh res = signRefreshToken E now
               \<lparr>r_sub = Some (u_id (tp_user res)), r_jti = Some (cryptoRandomId rnd)\<rparr>"
    using u r by simp
  have ver: "\<exists>p. verifyAccessToken E now (tp_access res) = Some p
                \<and> a_sub p = Some (u_id (tp_user res))"
    using v r by simp
  from res row hex inj ver length_cryptoRandomId[of rnd] show ?thesis
    by (intro exI[of _ row]) blast
qed

text \<open>
  Alice logs in a second time, at time 5, while her first session is in the table: the new
  identifier is the hexadecimal form of \<open>bytes2\<close>, 32 digits long, and differs from the one
  of her first session. With the bytes of her first login the identifier is taken and the
  login fails with \<open>Conflict\<close>.
\<close>

theorem C4_login_success_witness:
  "loginWithPassword sample_env 5 bytes2 ''a@x.com'' ''correct'' meta0 store1 =
     (Inr \<lparr>tp_user = alice, tp_access = access2, tp_refresh = token2\<rparr>, store_two_logins)
   \<and> sessions store1 = [session1]
   \<and> sessions store_two_logins = sessions store1 @ [session2]
   \<and> s_jwt_id session2 = Some ''fffefdfcfbfaf9f8f7f6f5f4f3f2f1f0''
   \<and> length (cryptoRandomId bytes2) = 32
   \<and> s_jwt_id session2 \<noteq> s_jwt_id session1
   \<and> s_refresh_hash session2 = Some (hashToken sample_env token2)
   \<and> verifyAccessToken sample_env 5 access2
       = Some \<lparr>a_sub = Some ''user:1'', a_email = Some ''a@x.com''\<rparr>
   \<and> loginWithPassword sample_env 5 bytes1 ''a@x.com'' ''correct'' meta0 store1
       = (Inl Conflict, store1)"
proof -
  have rt: "\<forall>p. verifyAccessToken sample_env 5 (signAccessToken sample_env 5 p) = Some p"
    by (simp add: sample_access_roundtrip)
  from C4_login_success[OF login_again rt] obtain row where
    row: "sessions store_two_logins = sessions store1 @ [row]"
      "s_jwt_id row = Some (cryptoRandomId bytes2)"
      "length (cryptoRandomId bytes2) = 2 * length bytes2"
      "findSessionByJti store1 (Some (cryptoRandomId bytes2)) = None"
      "s_refresh_hash row = Some (hashToken sample_env token2)"
    by auto
  from row(1) have eq: "row = session2"
    by (simp add: store_two_logins_def store1_def)
  have differ: "s_jwt_id session2 \<noteq> s_jwt_id session1"
    using row(2,4) eq by (auto simp: findSessionByJti_def store1_def)
  have len: "length (cryptoRandomId bytes2) = 32"
    using row(3) by (simp add: bytes2_def)
  have ver: "verifyAccessToken sample_env 5 access2
       = Some \<lparr>a_sub = Some ''user:1'', a_email = Some ''a@x.com''\<rparr>"
    by (simp add: access2_def sample_access_roundtrip)
  have s1: "sessions store1 = [session1]"
    by (simp add: store1_def)
  from row(1,2,5) eq differ len ver s1 show ?thesis
    by (simp add: login_again login_taken_identifier id2)
qed

text \<open>
  C5. A successful refresh first revokes the session of the presented token and then
  creates the new session in the store that already holds the revocation. The new session
  has the freshly drawn token identifier, which differs from the old one and from every
  identifier in the store, and the old session's IP and user agent. Every earlier row,
  the old session among them, is unchanged apart from its revocation timestamp.
\<close>

theorem C5_rotation_frame:
  assumes "refreshSession E now rnd tok s = (Inr res, s')"
  shows "\<exists>payload old new.
           verifyRefreshToken E now tok = Some payload
         \<and> findSessionByJti s (r_jti payload) = Some old
         \<and> s_revoked_at old = None
         \<and> createSession now
               \<lparr> ns_user_id = Some (u_id (tp_user res)),
                 ns_jwt_id = Some (cryptoRandomId rnd),
                 ns_ip = s_ip old,
                 ns_user_agent = s_user_agent old,
                 ns_refresh_hash = Some (hashToken E (tp_refresh res)) \<rparr>
               (revokeSession now (s_id old) s) = (Inr new, s')
         \<and> sessions s' = map (revokeRow now (s_id old)) (sessions s) @ [new]
         \<and> users s' = users s
         \<and> findSessionByJti s' (r_jti payload) = Some (old\<lparr>s_revoked_at := Some now\<rparr>)
         \<and> s_jwt_id new = Some (cryptoRandomId rnd)
         \<and> s_jwt_id new \<noteq> s_jwt_id old
         \<and> findSessionByJti s (s_jwt_id new) = None
         \<and> s_ip new = s_ip old
         \<and> s_user_agent new = s_user_agent old
         \<and> s_revoked_at new = None
         \<and> (\<forall>i<length (sessions s).
               (sessions s' ! i)\<lparr>s_revoked_at := s_revoked_at (sessions s ! i)\<rparr> = sessions s ! i)"
proof -
  from refreshSession_success[OF assms] obtain payload old user new where
    v: "verifyRefreshToken E now tok = Some payload"
    and f: "findSessionByJti s (r_jti payload) = Some old"
    and a: "s_revoked_at old = None"
    and r: "res = \<lparr>tp_user = user,
                   tp_access = signAccessToken E now
                     \<lparr>a_sub = Some (u_id user), a_email = Some (u_email user)\<rparr>,
                   tp_refresh = signRefreshToken E now
                     \<lparr>r_sub = Some (u_id user), r_jti = Some (cryptoRandomId rnd)\<rparr>\<rparr>"
    and c: "createSession now
               \<lparr> ns_user_id = Some (u_id user),
                 ns_jwt_id = Some (cryptoRandomId rnd),
                 ns_ip = s_ip old,
                 ns_user_agent = s_user_agent old,
                 ns_refresh_hash = Some (hashToken E (signRefreshToken E now
                     \<lparr>r_sub = Some (u_id user), r_jti = Some (cryptoRandomId rnd)\<rparr>)) \<rparr>
               (revokeSession now (s_id old) s) = (Inr new, s')"
    by blast
  note cr = createSession_Inr[OF c]
  have fresh': "findSessionByJti (revokeSession now (s_id old) s) (Some (cryptoRandomId rnd)) = None"
    using cr by simp
  then have fresh: "findSessionByJti s (Some (cryptoRandomId rnd)) = None"
    by (simp add: findSessionByJti_revokeSession)
  have jn: "s_jwt_id new = Some (cryptoRandomId rnd)"
    using cr by simp
  have jo: "s_jwt_id old = r_jti payload"
    using findSessionByJti_Some[OF f] by simp
  have differ: "s_jwt_id new \<noteq> s_jwt_id old"
    using jn jo f fresh by auto
  have ss: "sessions s' = map (revokeRow now (s_id old)) (sessions s) @ [new]"
    using cr by (simp add: revokeSession_def)
  have us: "users s' = users s"
    using cr by (simp add: revokeSession_def)
  have "findSessionByJti s' (r_jti payload) = Some (revokeRow now (s_id old) old)"
    using f by (simp add: findSessionByJti_def ss find_append_first find_map_same)
  then have found: "findSessionByJti s' (r_jti payload) = Some (old\<lparr>s_revoked_at := Some now\<rparr>)"
    using a by (simp add: revokeRow_def)
  have frame: "\<forall>i<length (sessions s).
       (sessions s' ! i)\<lparr>s_revoked_at := s_revoked_at (sessions s ! i)\<rparr> = sessions s ! i"
    by (simp add: ss nth_append revokeRow_def)
  have c': "createSession now
               \<lparr> ns_user_id = Some (u_id (tp_user res)),
                 ns_jwt_id = Some (cryptoRandomId rnd),
                 ns_ip = s_ip old,
                 ns_user_agent = s_user_agent old,
                 ns_refresh_hash = Some (hashToken E (tp_refresh res)) \<rparr>
               (revokeSession now (s_id old) s) = (Inr new, s')"
    using c r by simp
  have meta: "s_ip new = s_ip old \<and> s_user_agent new = s_user_agent old \<and> s_revoked_at new = None"
    using cr by simp
  show ?thesis
    using v f a c' ss us found jn differ fresh frame meta by (intro exI[of _ payload] exI[of _ old] exI[of _ new]) simp
qed

text \<open>The refresh of Alice's token at time 5.\<close>

theorem C5_rotation_frame_witness:
  "refreshSession sample_env 5 bytes2 token1 store1 =
     (Inr \<lparr>tp_user = alice, tp_access = access2, tp_refresh = token2\<rparr>, store2)
   \<and> findSessionByJti store1 (Some (cryptoRandomId bytes1)) = Some session1
   \<and> findSessionByJti store2 (Some (cryptoRandomId bytes1)) = Some (session1\<lparr>s_revoked_at := Some 5\<rparr>)
   \<and> sessions store2 = [session1\<lparr>s_revoked_at := Some 5\<rparr>, session2]
   \<and> s_jwt_id session2 \<noteq> s_jwt_id session1
   \<and> s_ip session2 = s_ip session1
   \<and> s_user_agent session2 = s_user_agent session1"
proof -
  from C5_rotation_frame[OF refresh_token1] obtain payload old new where
    h: "verifyRefreshToken sample_env 5 token1 = Some payload"
       "findSessionByJti store1 (r_jti payload) = Some old"
       "sessions store2 = map (revokeRow 5 (s_id old)) (sessions store1) @ [new]"
       "findSessionByJti store2 (r_jti payload) = Some (old\<lparr>s_revoked_at := Some 5\<rparr>)"
       "s_jwt_id new \<noteq> s_jwt_id old" "s_ip new = s_ip old" "s_user_agent new = s_user_agent old"
    by blast
  from h(1) have p: "r_jti payload = Some (cryptoRandomId bytes1)"
    by (auto simp: verify_token1)
  have o: "findSessionByJti store1 (Some (cryptoRandomId bytes1)) = Some session1"
    by (simp add: findSessionByJti_def store1_def session1_def)
  with h(2) p have old: "old = session1" by simp
  from h(3) have new: "new = session2"
    by (simp add: store2_def)
  from h old new p o show ?thesis
    by (simp add: refresh_token1 store2_def)
qed

text \<open>
  C6. The middleware's answer depends on the cookie, the verifier and the user table only:
  two stores with the same users give the same answer, revoking a session does not change
  it, and a request is let through exactly when its non-empty token verifies and the user
  named by its payload exists.
\<close>

theorem C6_auth_ignores_sessions:
  "(users s' = users s \<longrightarrow> auth E now s' cookie = auth E now s cookie)
   \<and> auth E now (revokeSession t sid s) cookie = auth E now s cookie
   \<and> (auth E now s cookie = Authenticated u \<longleftrightarrow>
        (\<exists>tok payload. cookie = Some tok \<and> tok \<noteq> []
           \<and> verifyAccessToken E now tok = Some payload
           \<and> findUserById s (a_sub payload) = Some u))"
  by (auto simp: auth_def findUserById_def revokeSession_def Let_def split: option.splits)

text \<open>
  The access token issued at time 5 is accepted at time 7, also after the session it came
  with has been revoked and no session is active.
\<close>

theorem C6_auth_ignores_sessions_witness:
  "auth sample_env 7 store2 (Some access2) = Authenticated alice
   \<and> auth sample_env 7 (revokeSession 7 1 store2) (Some access2) = Authenticated alice
   \<and> active_sessions (revokeSession 7 1 store2) = []
   \<and> auth sample_env 7 store1 (Some access2) = auth sample_env 7 store2 (Some access2)"
  using C6_auth_ignores_sessions[of store1 store2 sample_env 7 "Some access2" 7 1 alice]
  by (simp add: auth_def access2_def sample_verify_access sample_access_nonempty findUserById_def
       store2_def store1_def alice_def active_sessions_def revokeSession_def revokeRow_def
       session1_def session2_def)

text \<open>
  C7, as amended. When the provider library reports an error, the callback hands that
  error to \<^verbatim>\<open>next\<close>; it creates no session, sets no cookie and sends no redirect.
\<close>

theorem C7_callback_error_forwarded:
  "googleCallback E now rnd (Some e) user req s = (NextErr e, s)"
  by (simp add: googleCallback_def)

text \<open>
  C7 as stated says a failed provider assertion ends in a redirect to an error state. For
  the provider error \<open>access_denied\<close> the callback's answer is not a redirect.
\<close>

theorem C7_callback_error_counterexample:
  "\<not> is_redirect (fst (googleCallback sample_env 0 bytes1
        (Some (ProviderFailure ''access_denied'')) None req0 store0))"
  by (simp add: googleCallback_def)

text \<open>
  C8. Password login, refresh and the identity-provider callback write only complete
  sessions: every row they add has a token identifier and a refresh hash, and the two
  fields of the rows that were there before stay as they were.
\<close>

theorem C8_sessions_written_complete:
  "writes_complete s (snd (loginWithPassword E now rnd email password m s))
   \<and> writes_complete s (snd (refreshSession E now rnd tok s))
   \<and> writes_complete s (snd (googleCallback E now rnd err user req s))"
proof (intro conjI)
  show "writes_complete s (snd (loginWithPassword E now rnd email password m s))"
    using loginWithPassword_store[of E now rnd email password m s]
    by (auto simp: writes_complete_same writes_complete_create)
  show "writes_complete s (snd (refreshSession E now rnd tok s))"
    using refreshSession_store[of E now rnd tok s]
    by (auto simp: writes_complete_same writes_complete_create revokeSession_keeps)
  show "writes_complete s (snd (googleCallback E now rnd err user req s))"
    using googleCallback_store[of E now rnd err user req s]
    by (auto simp: writes_complete_same writes_complete_create)
qed

text \<open>The rows that Alice's login and her refresh write.\<close>

theorem C8_sessions_written_complete_witness:
  "written store0 (snd (loginWithPassword sample_env 0 bytes1 ''a@x.com'' ''correct'' meta0 store0))
     = [session1]
   \<and> written store1 (snd (refreshSession sample_env 5 bytes2 token1 store1)) = [session2]
   \<and> complete session1 \<and> complete session2"
proof -
  have l: "snd (loginWithPassword sample_env 0 bytes1 ''a@x.com'' ''correct'' meta0 store0) = store1"
    by (simp add: login_alice)
  have r: "snd (refreshSession sample_env 5 bytes2 token1 store1) = store2"
    by (simp add: refresh_token1)
  have w1: "written store0 store1 = [session1]"
    by (simp add: written_def store0_def store1_def)
  have w2: "written store1 store2 = [session2]"
    by (simp add: written_def store1_def store2_def)
  from C8_sessions_written_complete[where s = store0 and E = sample_env and now = 0
          and rnd = bytes1 and email = "''a@x.com''" and password = "''correct''" and m = meta0]
  have "list_all complete (written store0 store1)"
    by (simp add: writes_complete_def l)
  moreover
  from C8_sessions_written_complete[where s = store1 and E = sample_env and now = 5
          and rnd = bytes2 and tok = token1]
  have "list_all complete (written store1 store2)"
    by (simp add: writes_complete_def r)
  ultimately show ?thesis
    by (simp add: l r w1 w2)
qed

text \<open>
  C9 says that of two concurrent refresh calls with the same token exactly one succeeds.
  Here the two calls take their steps in turn: both read the session while it is active,
  both revoke it, and both create a session. Both return a token pair, and the store ends
  with two active sessions for the one original token.
\<close>

theorem C9_concurrent_refresh_both_succeed:
  "interleave sample_env 5 bytes2 bytes3 [False, True, False, True, False, True, False, True]
     (Start token1, Start token1, store1) =
     (Finished (Inr \<lparr>tp_user = alice, tp_access = access2, tp_refresh = token2\<rparr>),
      Finished (Inr \<lparr>tp_user = alice, tp_access = access2, tp_refresh = token3\<rparr>),
      store3)
   \<and> active_sessions store3 = [session2, session3]"
  by (simp add: verify_token1 findSessionByJti_def store1_def session1_def
      findUserById_def alice_def revokeSession_def revokeRow_def createSession_def Let_def
      id1 id2 id3 store2_def session2_def token2_def access2_def store3_def session3_def token3_def
      active_sessions_def)

text \<open>
  C10. When the token verifies, its session is active and the hash matches, but no user has
  the token's subject, \<^verbatim>\<open>refreshSession\<close> throws a \<open>TypeError\<close>, which is none of the errors
  with a status, and leaves the store unchanged: nothing is revoked and nothing is created.
\<close>

theorem C10_refresh_missing_user:
  assumes "verifyRefreshToken E now tok = Some payload"
    and "findSessionByJti s (r_jti payload) = Some session"
    and "s_revoked_at session = None"
    and "s_refresh_hash session = Some (hashToken E tok)"
    and "findUserById s (r_sub payload) = None"
  shows "refreshSession E now rnd tok s = (Inl TypeError, s)
       \<and> (\<forall>msg status. TypeError \<noteq> HttpError msg status)"
  using assms by (simp add: refreshSession_def)

text \<open>The session of \<open>token1\<close> in a store without its user.\<close>

theorem C10_refresh_missing_user_witness:
  "verifyRefreshToken sample_env 5 token1
     = Some \<lparr>r_sub = Some ''user:1'', r_jti = Some (cryptoRandomId bytes1)\<rparr>
   \<and> findSessionByJti store_no_user (Some (cryptoRandomId bytes1)) = Some session1
   \<and> s_revoked_at session1 = None
   \<and> s_refresh_hash session1 = Some (hashToken sample_env token1)
   \<and> findUserById store_no_user (Some ''user:1'') = None
   \<and> refreshSession sample_env 5 bytes2 token1 store_no_user = (Inl TypeError, store_no_user)"
  using C10_refresh_missing_user[of sample_env 5 token1
          "\<lparr>r_sub = Some ''user:1'', r_jti = Some (cryptoRandomId bytes1)\<rparr>"
          store_no_user session1 bytes2]
  by (simp add: verify_token1 findSessionByJti_def findUserById_def store_no_user_def session1_def)

end
